theory Spec2Isabelle
  imports Main
begin

section \<open>Python strings\<close>

text \<open>
  Strings are lists of characters with code points below 256. \<open>py_isspace\<close> is
  Python's \<open>str.isspace\<close> on that range: TAB..CR, FS..US, SPACE, NEL and NBSP.
  \<open>strip\<close> is \<open>str.strip()\<close> with no argument, \<open>join\<close> is \<open>sep.join(xs)\<close>.
\<close>

definition py_isspace :: "char \<Rightarrow> bool" where
  "py_isspace c =
     (let n = (of_char c :: nat)
      in (9 \<le> n \<and> n \<le> 13) \<or> (28 \<le> n \<and> n \<le> 32) \<or> n = 133 \<or> n = 160)"

definition lstrip :: "string \<Rightarrow> string" where
  "lstrip xs = dropWhile py_isspace xs"

definition rstrip :: "string \<Rightarrow> string" where
  "rstrip xs = rev (dropWhile py_isspace (rev xs))"

definition strip :: "string \<Rightarrow> string" where
  "strip xs = rstrip (lstrip xs)"

fun join :: "string \<Rightarrow> string list \<Rightarrow> string" where
  "join sep [] = []"
| "join sep [x] = x"
| "join sep (x # y # ys) = x @ sep @ join sep (y # ys)"

text \<open>
  Truthiness of an optional string as \<open>if x := d.get(k)\<close> tests it: \<open>None\<close> and the
  empty string are false. \<open>py_str\<close> is \<open>str(x)\<close>, which renders \<open>None\<close> as the
  text None.
\<close>

fun truthy :: "string option \<Rightarrow> bool" where
  "truthy None = False"
| "truthy (Some x) = (x \<noteq> [])"

fun py_str :: "string option \<Rightarrow> string" where
  "py_str None = ''None''"
| "py_str (Some x) = x"

section \<open>Tokens\<close>

text \<open>
  The classes \<open>Command\<close>, \<open>Pipe\<close>, \<open>And\<close>, \<open>Or\<close> and \<open>Redirect\<close> of
  \<open>BaseCommand\<close>. Every token carries its \<open>command\<close> text; only \<open>Command\<close> ever
  fills \<open>args\<close> and \<open>kwargs\<close>. Positional arguments are stored after \<open>str(a)\<close>;
  a keyword value is represented by the text that \<open>f"{value}"\<close> gives. The keyword
  dictionary keeps insertion order, so it is an association list.
\<close>

datatype token =
    Command string "string list" "(string \<times> string) list"
  | Pipe string
  | And string
  | Or string
  | Redirect string

text \<open>\<open>Command.__str__\<close>: one flag per keyword, \<open>-k=v\<close> for a one-letter key,
  \<open>--key=v\<close> otherwise; then the name, the flags and the positional arguments.\<close>

definition kwarg_str :: "string \<times> string \<Rightarrow> string" where
  "kwarg_str kv =
     (let k = fst kv; v = snd kv;
          key = (if length k = 1 then ''-'' @ k else ''--'' @ k)
      in key @ ''='' @ v)"

definition command_str :: "string \<Rightarrow> string list \<Rightarrow> (string \<times> string) list \<Rightarrow> string" where
  "command_str command args kwargs =
     (let args_str = strip (join '' '' args);
          kwargs_list = map kwarg_str kwargs;
          kwargs_str = strip (join '' '' kwargs_list);
          output = command;
          output = (if kwargs_str \<noteq> [] then output @ '' '' @ kwargs_str else output);
          output = (if args_str \<noteq> [] then output @ '' '' @ args_str else output)
      in output)"

fun token_str :: "token \<Rightarrow> string" where
  "token_str (Command command args kwargs) = command_str command args kwargs"
| "token_str (Pipe command) = command"
| "token_str (And command) = command"
| "token_str (Or command) = command"
| "token_str (Redirect command) = command"

text \<open>\<open>isinstance(cmd, SPECIAL_CASES)\<close> with
  \<open>SPECIAL_CASES = (Pipe, And, Redirect, Or)\<close>.\<close>

fun is_special :: "token \<Rightarrow> bool" where
  "is_special (Command command args kwargs) = False"
| "is_special (Pipe command) = True"
| "is_special (And command) = True"
| "is_special (Or command) = True"
| "is_special (Redirect command) = True"

section \<open>Contexts and the builder\<close>

text \<open>
  A context is a dictionary read only through \<open>get\<close>; each field below is the value
  \<open>context.get(key)\<close>, with \<open>None\<close> for a key that is absent or holds \<open>None\<close>.
  The two flags are kept by their truth value. The key \<open>env\<close> is also read with
  a default, which tells an absent key from a stored \<open>None\<close>.
\<close>

datatype env_entry = EnvAbsent | EnvNone | EnvDict "(string \<times> string) list"

record ctx =
  cwd :: "string option"
  sudo :: bool
  hostname :: "string option"
  ssh_config :: "string option"
  env :: env_entry
  logging :: bool
  src :: "string option"
  user :: "string option"

definition empty_context :: ctx where
  "empty_context =
     \<lparr>cwd = None, sudo = False, hostname = None, ssh_config = None,
      env = EnvAbsent, logging = False, src = None, user = None\<rparr>"

text \<open>The builder: the command buffer and the list \<open>_context\<close>.\<close>

record sultan =
  commands :: "token list"
  context_stack :: "ctx list"
  logging_activated :: bool

definition current_context :: "sultan \<Rightarrow> ctx" where
  "current_context s =
     (if length (context_stack s) > 0 then last (context_stack s) else empty_context)"

definition add :: "token \<Rightarrow> sultan \<Rightarrow> sultan" where
  "add command s = s\<lparr>commands := commands s @ [command]\<rparr>"

definition clear :: "sultan \<Rightarrow> sultan" where
  "clear s = s\<lparr>commands := []\<rparr>"

section \<open>Rendering\<close>

text \<open>
  The loop of \<open>Sultan.__str__\<close> over \<open>enumerate(self.commands)\<close>. The index
  \<open>i - 1\<close> is read only when \<open>i\<close> is positive, so it is always in range.
\<close>

definition separator :: "token list \<Rightarrow> nat \<Rightarrow> token \<Rightarrow> string" where
  "separator cmds i cmd =
     (if i = 0 then []
      else if is_special cmd then '' ''
      else if is_special (cmds ! (i - 1)) then '' '' else ''; '')"

definition render_loop :: "token list \<Rightarrow> string" where
  "render_loop cmds =
     fold (\<lambda>(i, cmd) output. output @ separator cmds i cmd @ token_str cmd)
       (enumerate 0 cmds) []"

definition render_body :: "token list \<Rightarrow> string" where
  "render_body cmds = strip (render_loop cmds) @ '';''"

text \<open>The four wrapping steps, in the order the source applies them.\<close>

definition cd_prefix :: "ctx \<Rightarrow> string \<Rightarrow> string" where
  "cd_prefix context output =
     (case cwd context of
        None \<Rightarrow> output
      | Some d \<Rightarrow> if d \<noteq> [] then (''cd '' @ d @ '' && '') @ output else output)"

definition source_prefix :: "ctx \<Rightarrow> string \<Rightarrow> string" where
  "source_prefix context output =
     (case src context of
        None \<Rightarrow> output
      | Some f \<Rightarrow> if f \<noteq> [] then (''source '' @ f @ '' && '') @ output else output)"

definition sudo_wrap :: "string \<Rightarrow> ctx \<Rightarrow> string \<Rightarrow> string" where
  "sudo_wrap getuser context output =
     (if sudo context then
        (if user context \<noteq> Some getuser
         then ''sudo su - '' @ py_str (user context) @ '' -c '' @ [CHR 39] @ output @ [CHR 39]
         else if getuser = ''root''
         then ''su - '' @ py_str (user context) @ '' -c '' @ [CHR 39] @ output @ [CHR 39]
         else ''sudo '' @ output)
      else output)"

definition ssh_wrap :: "ctx \<Rightarrow> string \<Rightarrow> string" where
  "ssh_wrap context output =
     (case hostname context of
        None \<Rightarrow> output
      | Some h \<Rightarrow>
          if h \<noteq> [] then
            ''ssh''
            @ (if truthy (ssh_config context) then '' '' @ py_str (ssh_config context) @ '' ''
               else '' '')
            @ py_str (user context) @ ''@'' @ h @ '' '' @ [CHR 39] @ output @ [CHR 39]
          else output)"

text \<open>\<open>Sultan.__str__\<close>; \<open>getuser\<close> is the value of \<open>getpass.getuser()\<close>.\<close>

definition sultan_str :: "string \<Rightarrow> sultan \<Rightarrow> string" where
  "sultan_str getuser s =
     (let context = current_context s;
          output = render_body (commands s);
          output = cd_prefix context output;
          output = source_prefix context output;
          output = sudo_wrap getuser context output;
          output = ssh_wrap context output
      in output)"

section \<open>The separator rules as a recursion on the buffer\<close>

text \<open>
  The rules in the words of the specification: nothing before the first token, one
  space before an operator token, one space before a plain command that follows an
  operator token, and a semicolon and a space before a plain command that follows a
  plain command. \<open>spec_render_after prev ts\<close> renders the tokens \<open>ts\<close> that come
  after the token \<open>prev\<close>.
\<close>

fun spec_render_after :: "token \<Rightarrow> token list \<Rightarrow> string" where
  "spec_render_after prev [] = []"
| "spec_render_after prev (t # ts) =
     (if is_special t then '' '' else if is_special prev then '' '' else ''; '')
     @ token_str t @ spec_render_after t ts"

fun spec_render :: "token list \<Rightarrow> string" where
  "spec_render [] = []"
| "spec_render (t # ts) = token_str t @ spec_render_after t ts"

section \<open>Building contexts and tokens\<close>

datatype error = ValueError | IOError

text \<open>
  The argument \<open>ssh_config\<close> of \<open>Sultan.load\<close>, by what \<open>load\<close> reads of it:
  a false value (the default \<open>None\<close>), an instance of \<open>SSHConfig\<close> carried as the
  text \<open>str(ssh_config)\<close>, or a true value of any other class.
\<close>

datatype ssh_config_arg = SshFalse | SshConfig string | SshOther

text \<open>\<open>Sultan.__init__\<close>.\<close>

definition init :: "ctx option \<Rightarrow> sultan" where
  "init context =
     \<lparr>commands = [],
      context_stack = (case context of Some c \<Rightarrow> [c] | None \<Rightarrow> []),
      logging_activated = (case context of Some c \<Rightarrow> logging c | None \<Rightarrow> False)\<rparr>"

text \<open>
  \<open>Sultan.load\<close>. \<open>path_exists\<close> is \<open>os.path.exists\<close> on the local filesystem.
  The extra keywords of \<open>load\<close> can only add keys that nothing reads, so they are
  left out. The arguments are named with a trailing \<open>0\<close>.
\<close>

definition load ::
  "(string \<Rightarrow> bool) \<Rightarrow> string \<Rightarrow> string option \<Rightarrow> bool \<Rightarrow> string option \<Rightarrow> string option \<Rightarrow>
   (string \<times> string) list option \<Rightarrow> bool \<Rightarrow> ssh_config_arg \<Rightarrow> string option \<Rightarrow> error + sultan" where
  "load path_exists getuser cwd0 sudo0 user0 hostname0 env0 logging0 ssh_config0 src0 =
     (if ssh_config0 = SshOther then Inl ValueError
      else if truthy src0 \<and> \<not> path_exists (py_str src0) then Inl IOError
      else Inr (init (Some
        \<lparr>cwd = cwd0,
         sudo = sudo0,
         hostname = hostname0,
         ssh_config = (case ssh_config0 of SshConfig t \<Rightarrow> Some t | _ \<Rightarrow> Some []),
         env = (case env0 of Some (kv # kvs) \<Rightarrow> EnvDict (kv # kvs) | _ \<Rightarrow> EnvNone),
         logging = logging0,
         src = src0,
         user = (if truthy user0 then user0 else Some getuser)\<rparr>)))"

text \<open>\<open>__enter__\<close> and \<open>__exit__\<close>: entering checks the stack, leaving pops it.\<close>

datatype misuse = InvalidContextError

definition enter :: "sultan \<Rightarrow> misuse + sultan" where
  "enter s = (if length (context_stack s) = 0 then Inl InvalidContextError else Inr s)"

definition exit_scope :: "sultan \<Rightarrow> sultan" where
  "exit_scope s =
     (if length (context_stack s) > 0 then s\<lparr>context_stack := butlast (context_stack s)\<rparr>
      else s)"

text \<open>\<open>str.replace('__', '-')\<close>: non-overlapping occurrences, left to right.\<close>

fun dunder_to_dash :: "string \<Rightarrow> string" where
  "dunder_to_dash (a # b # cs) =
     (if a = CHR ''_'' \<and> b = CHR ''_'' then CHR ''-'' # dunder_to_dash cs
      else a # dunder_to_dash (b # cs))"
| "dunder_to_dash cs = cs"

text \<open>\<open>Sultan.__getattr__\<close>: the callable that an attribute access gives.\<close>

datatype attr = RedirectAttr | CommandAttr string

definition getattr :: "string \<Rightarrow> attr" where
  "getattr name =
     (if name = ''redirect'' then RedirectAttr else CommandAttr (dunder_to_dash name))"

text \<open>\<open>os.path.join\<close> of two components on POSIX.\<close>

definition path_join :: "string \<Rightarrow> string \<Rightarrow> string" where
  "path_join a b =
     (if take 1 b = ''/'' then b
      else if a = [] \<or> take 1 (rev a) = ''/'' then a @ b
      else a @ ''/'' @ b)"

text \<open>\<open>kwargs.pop(k)\<close> on the association list of a dictionary.\<close>

definition pop :: "string \<Rightarrow> (string \<times> string) list \<Rightarrow> (string \<times> string) list" where
  "pop k kwargs = filter (\<lambda>kv. fst kv \<noteq> k) kwargs"

text \<open>
  \<open>Command.__call__\<close> on the command named \<open>command\<close>. The result is the exception
  raised, if any, and the builder after the call.
\<close>

definition command_call ::
  "(string \<Rightarrow> bool) \<Rightarrow> string \<Rightarrow> string list \<Rightarrow> (string \<times> string) list \<Rightarrow> sultan
   \<Rightarrow> error option \<times> sultan" where
  "command_call path_exists command args kwargs s =
     (case (case map_of kwargs ''where'' of
              None \<Rightarrow> Inr (command, kwargs)
            | Some where0 \<Rightarrow>
                if \<not> path_exists where0 then Inl IOError
                else (let cmd = path_join where0 command
                      in if \<not> path_exists cmd then Inl IOError
                         else Inr (path_join where0 cmd, pop ''where'' kwargs))) of
        Inl e \<Rightarrow> (Some e, s)
      | Inr (command1, kwargs1) \<Rightarrow>
          (let (command2, kwargs2) =
                 (if map_of kwargs1 ''sudo'' \<noteq> None
                  then (''sudo '' @ command1, pop ''sudo'' kwargs1)
                  else (command1, kwargs1))
           in (None, add (Command command2 args kwargs2) s)))"

text \<open>\<open>Redirect.__call__\<close>; \<open>append0\<close> is its argument \<open>append\<close>.\<close>

definition redirect_call :: "string \<Rightarrow> bool \<Rightarrow> bool \<Rightarrow> bool \<Rightarrow> sultan \<Rightarrow> error option \<times> sultan" where
  "redirect_call to_file append0 stdout stderr s =
     (if stdout \<and> stderr then
        (None, add (Redirect ((''&'' @ ''>'' @ (if append0 then ''>'' else [])) @ '' '' @ to_file)) s)
      else if stdout then
        (None, add (Redirect ((''1'' @ ''>'' @ (if append0 then ''>'' else [])) @ '' '' @ to_file)) s)
      else if stderr then
        (None, add (Redirect ((''2'' @ ''>'' @ (if append0 then ''>'' else [])) @ '' '' @ to_file)) s)
      else (Some ValueError, s))"

definition pipe :: "sultan \<Rightarrow> sultan" where
  "pipe s = add (Pipe ''|'') s"

text \<open>The methods \<open>and_\<close> and \<open>or_\<close>.\<close>

definition and_op :: "sultan \<Rightarrow> sultan" where
  "and_op s = add (And ''&&'') s"

definition or_op :: "sultan \<Rightarrow> sultan" where
  "or_op s = add (Or ''||'') s"

section \<open>Execution\<close>

text \<open>
  The value passed to \<open>subprocess.Popen\<close> as \<open>env\<close>: the object \<open>os.environ\<close>,
  \<open>None\<close>, or a dictionary. \<open>child_environment\<close> is what \<open>Popen\<close> documents for
  it: \<open>None\<close> inherits the environment of the process, a mapping replaces it.
\<close>

datatype env_arg = OsEnviron | PyNone | PyDict "(string \<times> string) list"

definition child_environment :: "(string \<times> string) list \<Rightarrow> env_arg \<Rightarrow> (string \<times> string) list" where
  "child_environment os_environ e =
     (case e of OsEnviron \<Rightarrow> os_environ | PyNone \<Rightarrow> os_environ | PyDict d \<Rightarrow> d)"

text \<open>The environment that \<open>run\<close> computes:
  \<open>self._context[0].get('env', {}) if len(self._context) > 0 else os.environ\<close>.\<close>

definition run_env :: "sultan \<Rightarrow> env_arg" where
  "run_env s =
     (if length (context_stack s) > 0 then
        (case env (context_stack s ! 0) of
           EnvAbsent \<Rightarrow> PyDict []
         | EnvNone \<Rightarrow> PyNone
         | EnvDict d \<Rightarrow> PyDict d)
      else OsEnviron)"

text \<open>
  The environment of the active context, in the words of the specification: the
  override of the context on top of the stack, or of an empty context when the stack is
  empty, and the inherited environment when that context sets no override.
\<close>

definition spec_environment :: "(string \<times> string) list \<Rightarrow> sultan \<Rightarrow> (string \<times> string) list" where
  "spec_environment os_environ s =
     (case env (current_context s) of
        EnvDict d \<Rightarrow> d
      | EnvNone \<Rightarrow> os_environ
      | EnvAbsent \<Rightarrow> os_environ)"

text \<open>
  What \<open>Popen(...).communicate()\<close> does: it gives the two captured streams, or an
  exception is raised. The shell is a function of the command line and the
  environment it is given.
\<close>

datatype popen_outcome = Communicated string string | PopenRaised

text \<open>Modelled from the spec: the class \<open>Result\<close> of the module \<open>result\<close>, which
  is not among the sources, holds the captured stdout, the captured stderr and an
  optional traceback.\<close>

record result =
  res_stdout :: "string option"
  res_stderr :: "string option"
  res_traceback :: bool

datatype event =
    EchoCmd string
  | EchoCritical string
  | PrintTraceback
  | PrintStdout
  | PrintStderr

text \<open>
  How a call of \<open>run\<close> ends: it returns a result, it raises again the exception
  caught by its handler, or an exception leaves it before the \<open>try\<close> statement is
  entered.
\<close>

datatype run_outcome = Returned result | Raised | RaisedBeforeTry

text \<open>
  \<open>str(self)\<close> as \<open>run\<close> calls it. \<open>getpass.getuser()\<close> gives the login name,
  or raises when neither the environment nor the password database names the user;
  \<open>getuser\<close> is \<open>None\<close> then. \<open>__str__\<close> calls it only under sudo (first in the
  comparison with the user of the context), so only then does the exception leave
  \<open>__str__\<close>; \<open>None\<close> is the result in that case. Without sudo the rendering
  does not depend on the login name.
\<close>

definition str_self :: "string option \<Rightarrow> sultan \<Rightarrow> string option" where
  "str_self getuser s =
     (case getuser of
        Some u \<Rightarrow> Some (sultan_str u s)
      | None \<Rightarrow> if sudo (current_context s) then None else Some (sultan_str [] s))"

text \<open>
  \<open>Sultan.run\<close>. It gives the outcome, the calls made to the logger and to the
  printing methods of the result, and the builder afterwards. The rendering and the
  call of the logger come before the \<open>try\<close> statement, so an exception there leaves
  \<open>run\<close> without the \<open>clear\<close> of the \<open>finally\<close> block; every branch inside
  the statement ends with that \<open>clear\<close>. The class \<open>Echo\<close> is not among the
  sources: \<open>echo_cmd line\<close> tells whether \<open>self._echo.cmd(line)\<close> returns.
\<close>

definition run ::
  "string option \<Rightarrow> (string \<Rightarrow> bool) \<Rightarrow> (string \<Rightarrow> env_arg \<Rightarrow> popen_outcome)
   \<Rightarrow> bool \<Rightarrow> bool \<Rightarrow> bool \<Rightarrow> sultan
   \<Rightarrow> run_outcome \<times> event list \<times> sultan" where
  "run getuser echo_cmd popen halt_on_nonzero quiet q s =
     (case str_self getuser s of
        None \<Rightarrow> (RaisedBeforeTry, [], s)
      | Some cmdline \<Rightarrow>
          if \<not> quiet \<and> \<not> q \<and> \<not> echo_cmd cmdline then (RaisedBeforeTry, [EchoCmd cmdline], s)
          else
            (let echoed = (if \<not> quiet \<and> \<not> q then [EchoCmd cmdline] else []);
                 env0 = run_env s
             in case popen cmdline env0 of
                  Communicated out err \<Rightarrow>
                    (let r = \<lparr>res_stdout = Some out, res_stderr = Some err,
                              res_traceback = False\<rparr>
                     in if out \<noteq> [] then (Returned r, echoed, clear s)
                        else if err \<noteq> [] then (Returned r, echoed @ [PrintStderr], clear s)
                        else (Returned r, echoed, clear s))
                | PopenRaised \<Rightarrow>
                    (let r = \<lparr>res_stdout = None, res_stderr = None, res_traceback = True\<rparr>;
                         evs = echoed
                           @ [EchoCritical (''Unable to run '' @ [CHR 39] @ cmdline @ [CHR 39]),
                              PrintTraceback]
                     in if halt_on_nonzero then (Raised, evs, clear s)
                        else (Returned r, evs, clear s))))"

text \<open>A filesystem given by the list of the paths that exist on it.\<close>

definition exists_in :: "string list \<Rightarrow> string \<Rightarrow> bool" where
  "exists_in fs p = (p \<in> set fs)"

section \<open>Properties of rendering\<close>

lemma render_loop_after:
  "pre \<noteq> [] \<Longrightarrow>
   fold (\<lambda>(i, cmd) output. output @ separator (pre @ suf) i cmd @ token_str cmd)
     (enumerate (length pre) suf) acc
   = acc @ spec_render_after (last pre) suf"
proof (induction suf arbitrary: pre acc)
  case Nil
  then show ?case by simp
next
  case (Cons t ts)
  have sep: "separator (pre @ t # ts) (length pre) t =
      (if is_special t then '' '' else if is_special (last pre) then '' '' else ''; '')"
    using Cons.prems by (simp add: separator_def nth_append last_conv_nth)
  have "fold (\<lambda>(i, cmd) output. output @ separator ((pre @ [t]) @ ts) i cmd @ token_str cmd)
     (enumerate (length (pre @ [t])) ts) (acc @ separator (pre @ t # ts) (length pre) t @ token_str t)
   = (acc @ separator (pre @ t # ts) (length pre) t @ token_str t) @ spec_render_after (last (pre @ [t])) ts"
    by (rule Cons.IH) simp
  then show ?case
    by (simp add: sep)
qed

lemma render_loop_spec: "render_loop cmds = spec_render cmds"
proof (cases cmds)
  case Nil
  then show ?thesis by (simp add: render_loop_def)
next
  case (Cons t ts)
  have "fold (\<lambda>(i, cmd) output. output @ separator ([t] @ ts) i cmd @ token_str cmd)
     (enumerate (length [t]) ts) (token_str t) = token_str t @ spec_render_after (last [t]) ts"
    by (rule render_loop_after) simp
  then show ?thesis
    using Cons by (simp add: render_loop_def separator_def)
qed

text \<open>
  C1. For every buffer, the rendered body is the concatenation of the tokens with no
  separator before the first one, a single space before every later operator token, a
  single space before a plain command that follows an operator token and a semicolon
  and a space before a plain command that follows a plain command; this text is
  stripped of surrounding whitespace and a semicolon is appended.
\<close>

theorem render_separators:
  "render_body cmds = strip (spec_render cmds) @ '';''"
  by (simp add: render_body_def render_loop_spec)

lemma strip_Nil: "strip [] = []"
  by (simp add: strip_def lstrip_def rstrip_def)

lemma body_touch_x: "render_body [Command ''touch'' [''x''] []] = ''touch x;''"
  by code_simp

lemma body_ls: "render_body [Command ''ls'' [] []] = ''ls;''"
  by code_simp

text \<open>
  C2. When the active context sets both a working directory and a source file, the
  source prefix is outermost and the cd prefix sits just inside it, in front of the
  rendered body with its semicolon; the sudo and ssh steps wrap this text, and without
  them it is the final string.
\<close>

theorem source_outside_cd:
  assumes "cwd (current_context s) = Some d" and "d \<noteq> []"
    and "src (current_context s) = Some f" and "f \<noteq> []"
  shows "sultan_str getuser s =
           ssh_wrap (current_context s) (sudo_wrap getuser (current_context s)
             (''source '' @ f @ '' && '' @ ''cd '' @ d @ '' && '' @ strip (render_loop (commands s)) @ '';''))
         \<and> (\<not> sudo (current_context s) \<and> \<not> truthy (hostname (current_context s)) \<longrightarrow>
              sultan_str getuser s =
                ''source '' @ f @ '' && '' @ ''cd '' @ d @ '' && '' @ strip (render_loop (commands s)) @ '';'')"
  using assms
  by (cases "hostname (current_context s)")
     (simp_all add: sultan_str_def Let_def cd_prefix_def source_prefix_def render_body_def
        sudo_wrap_def ssh_wrap_def)

theorem source_outside_cd_witness:
  "sultan_str ''alice''
     \<lparr>commands = [Command ''ls'' [''-l''] []],
      context_stack = [\<lparr>cwd = Some ''/tmp'', sudo = False, hostname = None, ssh_config = Some [],
                        env = EnvNone, logging = True, src = Some ''/etc/profile'',
                        user = Some ''alice''\<rparr>],
      logging_activated = True\<rparr>
   = ''source /etc/profile && cd /tmp && ls -l;''"
proof -
  let ?s = "\<lparr>commands = [Command ''ls'' [''-l''] []],
      context_stack = [\<lparr>cwd = Some ''/tmp'', sudo = False, hostname = None, ssh_config = Some [],
                        env = EnvNone, logging = True, src = Some ''/etc/profile'',
                        user = Some ''alice''\<rparr>],
      logging_activated = True\<rparr>"
  have c: "cwd (current_context ?s) = Some ''/tmp''" by (simp add: current_context_def)
  have f: "src (current_context ?s) = Some ''/etc/profile''" by (simp add: current_context_def)
  have b: "strip (render_loop (commands ?s)) = ''ls -l''" by code_simp
  have n: "\<not> sudo (current_context ?s) \<and> \<not> truthy (hostname (current_context ?s))"
    by (simp add: current_context_def)
  have d: "''/tmp'' \<noteq> []" and g: "''/etc/profile'' \<noteq> []" by simp_all
  from source_outside_cd [OF c d f g, of "''alice''"] n
  have "sultan_str ''alice'' ?s =
      ''source '' @ ''/etc/profile'' @ '' && '' @ ''cd '' @ ''/tmp'' @ '' && ''
      @ strip (render_loop (commands ?s)) @ '';''"
    by blast
  then show ?thesis by (simp only: b) simp
qed

text \<open>
  C3. When the active context asks for sudo, the text \<open>B\<close> rendered so far is
  wrapped in \<open>sudo su - user -c 'B'\<close> if the user of the context differs from the
  invoking user, else in \<open>su - user -c 'B'\<close> if the invoking user is root, else
  in \<open>sudo B\<close>; the ssh step is applied to the result.
\<close>

theorem sudo_wrapping:
  assumes "sudo (current_context s)"
  shows "sultan_str getuser s =
           ssh_wrap (current_context s)
             (let B = source_prefix (current_context s)
                        (cd_prefix (current_context s) (render_body (commands s)));
                  u = py_str (user (current_context s))
              in if user (current_context s) \<noteq> Some getuser
                 then ''sudo su - '' @ u @ '' -c '' @ [CHR 39] @ B @ [CHR 39]
                 else if getuser = ''root''
                 then ''su - '' @ u @ '' -c '' @ [CHR 39] @ B @ [CHR 39]
                 else ''sudo '' @ B)"
  using assms by (simp add: sultan_str_def Let_def sudo_wrap_def)

theorem sudo_wrapping_witness:
  "sultan_str ''alice''
     \<lparr>commands = [Command ''touch'' [''x''] []],
      context_stack = [\<lparr>cwd = Some ''/tmp'', sudo = True, hostname = None, ssh_config = Some [],
                        env = EnvNone, logging = True, src = None, user = Some ''root''\<rparr>],
      logging_activated = True\<rparr>
   = ''sudo su - root -c '' @ [CHR 39] @ ''cd /tmp && touch x;'' @ [CHR 39]
   \<and> sultan_str ''root''
     \<lparr>commands = [Command ''touch'' [''x''] []],
      context_stack = [\<lparr>cwd = Some ''/tmp'', sudo = True, hostname = None, ssh_config = Some [],
                        env = EnvNone, logging = True, src = None, user = Some ''root''\<rparr>],
      logging_activated = True\<rparr>
   = ''su - root -c '' @ [CHR 39] @ ''cd /tmp && touch x;'' @ [CHR 39]
   \<and> sultan_str ''alice''
     \<lparr>commands = [Command ''touch'' [''x''] []],
      context_stack = [\<lparr>cwd = Some ''/tmp'', sudo = True, hostname = None, ssh_config = Some [],
                        env = EnvNone, logging = True, src = None, user = Some ''alice''\<rparr>],
      logging_activated = True\<rparr>
   = ''sudo cd /tmp && touch x;''"
proof -
  let ?r = "\<lparr>commands = [Command ''touch'' [''x''] []],
      context_stack = [\<lparr>cwd = Some ''/tmp'', sudo = True, hostname = None, ssh_config = Some [],
                        env = EnvNone, logging = True, src = None, user = Some ''root''\<rparr>],
      logging_activated = True\<rparr>"
  let ?a = "\<lparr>commands = [Command ''touch'' [''x''] []],
      context_stack = [\<lparr>cwd = Some ''/tmp'', sudo = True, hostname = None, ssh_config = Some [],
                        env = EnvNone, logging = True, src = None, user = Some ''alice''\<rparr>],
      logging_activated = True\<rparr>"
  have hr: "sudo (current_context ?r)" and ha: "sudo (current_context ?a)"
    by (simp_all add: current_context_def)
  have 1: "sultan_str ''alice'' ?r
      = ''sudo su - root -c '' @ [CHR 39] @ ''cd /tmp && touch x;'' @ [CHR 39]"
    using sudo_wrapping [OF hr, of "''alice''"]
    by (simp add: Let_def current_context_def ssh_wrap_def source_prefix_def cd_prefix_def
        body_touch_x)
  have 2: "sultan_str ''root'' ?r
      = ''su - root -c '' @ [CHR 39] @ ''cd /tmp && touch x;'' @ [CHR 39]"
    using sudo_wrapping [OF hr, of "''root''"]
    by (simp add: Let_def current_context_def ssh_wrap_def source_prefix_def cd_prefix_def
        body_touch_x)
  have 3: "sultan_str ''alice'' ?a = ''sudo cd /tmp && touch x;''"
    using sudo_wrapping [OF ha, of "''alice''"]
    by (simp add: Let_def current_context_def ssh_wrap_def source_prefix_def cd_prefix_def
        body_touch_x)
  from 1 2 3 show ?thesis by blast
qed

text \<open>
  C4. When the active context sets a hostname, the text \<open>B\<close> wrapped so far
  becomes \<open>ssh\<close>, the options, \<open>user@hostname\<close> and \<open>B\<close> in single
  quotes; the options are the option text with one space on each side, or one space
  alone when there are no options.
\<close>

theorem ssh_wrapping:
  assumes "hostname (current_context s) = Some h" and "h \<noteq> []"
  shows "sultan_str getuser s =
           (let B = sudo_wrap getuser (current_context s)
                      (source_prefix (current_context s)
                        (cd_prefix (current_context s) (render_body (commands s))));
                opts = (if truthy (ssh_config (current_context s))
                        then '' '' @ py_str (ssh_config (current_context s)) @ '' ''
                        else '' '')
            in ''ssh'' @ opts @ py_str (user (current_context s)) @ ''@'' @ h @ '' ''
               @ [CHR 39] @ B @ [CHR 39])
         \<and> (\<not> truthy (ssh_config (current_context s)) \<longrightarrow>
              sultan_str getuser s =
                ''ssh '' @ py_str (user (current_context s)) @ ''@'' @ h @ '' '' @ [CHR 39]
                @ sudo_wrap getuser (current_context s)
                    (source_prefix (current_context s)
                      (cd_prefix (current_context s) (render_body (commands s))))
                @ [CHR 39])"
  using assms by (simp add: sultan_str_def Let_def ssh_wrap_def)

theorem ssh_wrapping_witness:
  "sultan_str ''alice''
     \<lparr>commands = [Command ''ls'' [] []],
      context_stack = [\<lparr>cwd = None, sudo = False, hostname = Some ''h.com'', ssh_config = Some [],
                        env = EnvNone, logging = True, src = None, user = Some ''bob''\<rparr>],
      logging_activated = True\<rparr>
   = ''ssh bob@h.com '' @ [CHR 39] @ ''ls;'' @ [CHR 39]
   \<and> sultan_str ''alice''
     \<lparr>commands = [Command ''ls'' [] []],
      context_stack = [\<lparr>cwd = None, sudo = False, hostname = Some ''h.com'',
                        ssh_config = Some ''-p 22'',
                        env = EnvNone, logging = True, src = None, user = Some ''bob''\<rparr>],
      logging_activated = True\<rparr>
   = ''ssh -p 22 bob@h.com '' @ [CHR 39] @ ''ls;'' @ [CHR 39]"
proof -
  let ?n = "\<lparr>commands = [Command ''ls'' [] []],
      context_stack = [\<lparr>cwd = None, sudo = False, hostname = Some ''h.com'', ssh_config = Some [],
                        env = EnvNone, logging = True, src = None, user = Some ''bob''\<rparr>],
      logging_activated = True\<rparr>"
  let ?p = "\<lparr>commands = [Command ''ls'' [] []],
      context_stack = [\<lparr>cwd = None, sudo = False, hostname = Some ''h.com'',
                        ssh_config = Some ''-p 22'',
                        env = EnvNone, logging = True, src = None, user = Some ''bob''\<rparr>],
      logging_activated = True\<rparr>"
  have hn: "hostname (current_context ?n) = Some ''h.com''"
    and hp: "hostname (current_context ?p) = Some ''h.com''"
    and ne: "''h.com'' \<noteq> []"
    by (simp_all add: current_context_def)
  have 1: "sultan_str ''alice'' ?n = ''ssh bob@h.com '' @ [CHR 39] @ ''ls;'' @ [CHR 39]"
    using conjunct1 [OF ssh_wrapping [OF hn ne, of "''alice''"]]
    by (simp add: Let_def current_context_def sudo_wrap_def source_prefix_def cd_prefix_def
        body_ls)
  have 2: "sultan_str ''alice'' ?p = ''ssh -p 22 bob@h.com '' @ [CHR 39] @ ''ls;'' @ [CHR 39]"
    using conjunct1 [OF ssh_wrapping [OF hp ne, of "''alice''"]]
    by (simp add: Let_def current_context_def sudo_wrap_def source_prefix_def cd_prefix_def
        body_ls)
  from 1 2 show ?thesis by blast
qed

section \<open>Properties of execution\<close>

lemma sultan_str_without_sudo:
  "\<not> sudo (current_context s) \<Longrightarrow> sultan_str u s = sultan_str u' s"
  by (simp add: sultan_str_def Let_def sudo_wrap_def)

text \<open>
  Once the \<open>try\<close> statement is entered the buffer is emptied, whatever the shell
  does and whatever the flags are: when a result is returned after the shell
  communicated, when a result is returned after a failed invocation, and when the
  failure is raised again. When the login name is known and the logger returns, the
  statement is always entered.
\<close>

lemma run_clears_buffer_inside_try:
  "fst (run getuser echo_cmd popen halt_on_nonzero quiet q s) \<noteq> RaisedBeforeTry \<Longrightarrow>
   commands (snd (snd (run getuser echo_cmd popen halt_on_nonzero quiet q s))) = []"
  by (auto simp add: run_def Let_def clear_def split: option.splits popen_outcome.splits if_splits)

lemma run_enters_try:
  "(quiet \<or> q \<or> echo_cmd (sultan_str u s)) \<Longrightarrow>
   fst (run (Some u) echo_cmd popen halt_on_nonzero quiet q s) \<noteq> RaisedBeforeTry"
  by (auto simp add: run_def str_self_def Let_def split: popen_outcome.splits)

text \<open>
  C5. The builder made by \<open>Sultan.load(sudo=True, user='root')\<close> holds the command
  \<open>ls\<close>, and \<open>run\<close> is called in a process whose login name cannot be found.
  The rendering raises before the \<open>try\<close> statement, so the exception leaves
  \<open>run\<close> and the buffer still holds the command: it is not empty after the call.
\<close>

theorem run_render_failure_keeps_buffer:
  "run None echo_cmd popen halt_on_nonzero quiet q
     \<lparr>commands = [Command ''ls'' [] []],
      context_stack = [\<lparr>cwd = None, sudo = True, hostname = None, ssh_config = Some [],
                        env = EnvNone, logging = True, src = None, user = Some ''root''\<rparr>],
      logging_activated = True\<rparr>
   = (RaisedBeforeTry, [],
      \<lparr>commands = [Command ''ls'' [] []],
       context_stack = [\<lparr>cwd = None, sudo = True, hostname = None, ssh_config = Some [],
                         env = EnvNone, logging = True, src = None, user = Some ''root''\<rparr>],
       logging_activated = True\<rparr>)
   \<and> commands (snd (snd (run None echo_cmd popen halt_on_nonzero quiet q
         \<lparr>commands = [Command ''ls'' [] []],
          context_stack = [\<lparr>cwd = None, sudo = True, hostname = None, ssh_config = Some [],
                            env = EnvNone, logging = True, src = None, user = Some ''root''\<rparr>],
          logging_activated = True\<rparr>)))
     = [Command ''ls'' [] []]"
  by (simp add: run_def str_self_def current_context_def)

text \<open>
  The shell is called once, with the rendered line and \<open>run_env\<close>. With an empty
  stack, or a single context that has the key \<open>env\<close>, the child process gets the
  environment of the active context. \<open>run_env\<close> reads the bottom of the stack.
\<close>

lemma run_shell_call:
  "popen (sultan_str u s) (run_env s) = popen' (sultan_str u s) (run_env s) \<Longrightarrow>
   run (Some u) echo_cmd popen halt_on_nonzero quiet q s
   = run (Some u) echo_cmd popen' halt_on_nonzero quiet q s"
  by (simp add: run_def str_self_def Let_def)

lemma run_env_single_context:
  "context_stack s = [c] \<Longrightarrow> env c \<noteq> EnvAbsent \<Longrightarrow>
   child_environment os_environ (run_env s) = spec_environment os_environ s"
  by (cases "env c")
     (simp_all add: run_env_def child_environment_def spec_environment_def current_context_def)

lemma run_env_empty_stack:
  "context_stack s = [] \<Longrightarrow>
   child_environment os_environ (run_env s) = spec_environment os_environ s"
  by (simp add: run_env_def child_environment_def spec_environment_def current_context_def
      empty_context_def)

lemma run_env_bottom_of_stack:
  "run_env (s\<lparr>context_stack := c # cs\<rparr>) = run_env (s\<lparr>context_stack := [c]\<rparr>)"
  by (simp add: run_env_def)

text \<open>
  C6. The builder made by \<open>Sultan(context={'cwd': '/tmp'})\<close> has an active
  context with no environment override, yet \<open>run\<close> passes an empty dictionary as
  the environment, so the shell starts with no variables at all instead of the
  inherited \<open>PATH\<close>.
\<close>

theorem run_env_absent_key:
  "run_env (init (Some (empty_context\<lparr>cwd := Some ''/tmp''\<rparr>))) = PyDict []
   \<and> child_environment [(''PATH'', ''/usr/bin'')]
        (run_env (init (Some (empty_context\<lparr>cwd := Some ''/tmp''\<rparr>)))) = []
   \<and> spec_environment [(''PATH'', ''/usr/bin'')]
        (init (Some (empty_context\<lparr>cwd := Some ''/tmp''\<rparr>))) = [(''PATH'', ''/usr/bin'')]"
  by (simp add: run_env_def init_def empty_context_def child_environment_def
      spec_environment_def current_context_def)

section \<open>Properties of building\<close>

lemma map_of_pop: "map_of (pop k kwargs) k' = (if k' = k then None else map_of kwargs k')"
  by (induction kwargs) (auto simp: pop_def)

lemma command_str_prefix:
  "command_str (p @ command) args kwargs = p @ command_str command args kwargs"
  by (simp add: command_str_def Let_def)

text \<open>
  C7. \<open>redirect\<close> with neither stream chosen raises and leaves the builder as it
  was; otherwise it appends one token whose text is the descriptor (\<open>&\<close> for both
  streams, \<open>1\<close> for stdout, \<open>2\<close> for stderr), then \<open>>\<close> or, when appending,
  \<open>>>\<close>, a space and the target path. The token renders as its text.
\<close>

theorem redirect_descriptor:
  "redirect_call to_file append0 stdout stderr s =
     (if \<not> stdout \<and> \<not> stderr then (Some ValueError, s)
      else (None, s\<lparr>commands := commands s @
              [Redirect ((if stdout \<and> stderr then ''&'' else if stdout then ''1'' else ''2'')
                         @ (if append0 then ''>>'' else ''>'') @ '' '' @ to_file)]\<rparr>))
   \<and> redirect_call to_file True True False s =
       (None, s\<lparr>commands := commands s @ [Redirect (''1>> '' @ to_file)]\<rparr>)
   \<and> token_str (Redirect r) = r"
  by (simp add: redirect_call_def add_def)

text \<open>
  C8, as stated, fails for the working directory: \<open>load\<close> with a working
  directory that does not exist returns a builder.
\<close>

theorem cwd_not_checked:
  "load (exists_in []) ''alice'' (Some ''/nonexistent'') False None None None True SshFalse None
   = Inr \<lparr>commands = [],
          context_stack = [\<lparr>cwd = Some ''/nonexistent'', sudo = False, hostname = None,
                            ssh_config = Some [], env = EnvNone, logging = True, src = None,
                            user = Some ''alice''\<rparr>],
          logging_activated = True\<rparr>
   \<and> \<not> exists_in [] ''/nonexistent''"
  by (simp add: load_def init_def exists_in_def)

text \<open>
  C8, amended. A source file that is given and does not exist makes \<open>load\<close>
  raise, and a \<open>where\<close> directory that does not exist, or that does not hold the
  command, makes the call of the command raise and append nothing.
\<close>

theorem missing_path_raises:
  "(truthy src0 \<and> \<not> path_exists (py_str src0) \<longrightarrow>
      load path_exists getuser cwd0 sudo0 user0 hostname0 env0 logging0 ssh_config0 src0
      = Inl (if ssh_config0 = SshOther then ValueError else IOError))
   \<and> (map_of kwargs ''where'' = Some w
        \<and> (\<not> path_exists w \<or> \<not> path_exists (path_join w command)) \<longrightarrow>
      command_call path_exists command args kwargs s = (Some IOError, s))"
  by (auto simp add: load_def command_call_def Let_def)

theorem missing_path_raises_witness:
  "load (exists_in [''/tmp'']) ''alice'' None False None None None True SshFalse
     (Some ''/no/profile'') = Inl IOError
   \<and> command_call (exists_in [''/tmp'']) ''ls'' [] [(''where'', ''/opt'')] (init None)
     = (Some IOError, init None)
   \<and> command_call (exists_in [''/opt'']) ''ls'' [] [(''where'', ''/opt'')] (init None)
     = (Some IOError, init None)"
proof -
  have a: "truthy (Some ''/no/profile'') \<and> \<not> exists_in [''/tmp''] (py_str (Some ''/no/profile''))"
    by (simp add: exists_in_def)
  have b: "map_of [(''where'', ''/opt'')] ''where'' = Some ''/opt''
      \<and> (\<not> exists_in [''/tmp''] ''/opt'' \<or> \<not> exists_in [''/tmp''] (path_join ''/opt'' ''ls''))"
    by (simp add: exists_in_def)
  have c: "map_of [(''where'', ''/opt'')] ''where'' = Some ''/opt''
      \<and> (\<not> exists_in [''/opt''] ''/opt'' \<or> \<not> exists_in [''/opt''] (path_join ''/opt'' ''ls''))"
    by (simp add: exists_in_def path_join_def)
  from a missing_path_raises [of "Some ''/no/profile''" "exists_in [''/tmp'']" "''alice''" None False
      None None None True SshFalse]
  have 1: "load (exists_in [''/tmp'']) ''alice'' None False None None None True SshFalse
     (Some ''/no/profile'') = Inl IOError" by simp
  from b missing_path_raises [of _ "exists_in [''/tmp'']" _ _ _ _ _ _ _ _ "[(''where'', ''/opt'')]"
      "''/opt''" "''ls''" "[]" "init None"]
  have 2: "command_call (exists_in [''/tmp'']) ''ls'' [] [(''where'', ''/opt'')] (init None)
     = (Some IOError, init None)" by blast
  from c missing_path_raises [of _ "exists_in [''/opt'']" _ _ _ _ _ _ _ _ "[(''where'', ''/opt'')]"
      "''/opt''" "''ls''" "[]" "init None"]
  have 3: "command_call (exists_in [''/opt'']) ''ls'' [] [(''where'', ''/opt'')] (init None)
     = (Some IOError, init None)" by blast
  from 1 2 3 show ?thesis by blast
qed

text \<open>
  C9, as stated, fails when the active context sets a working directory: after
  \<open>clear\<close> the rendering still carries the cd prefix.
\<close>

theorem clear_keeps_context_wrapping:
  "sultan_str ''alice''
     (clear \<lparr>commands = [Command ''ls'' [] []],
             context_stack = [\<lparr>cwd = Some ''/tmp'', sudo = False, hostname = None,
                               ssh_config = Some [], env = EnvNone, logging = True, src = None,
                               user = Some ''alice''\<rparr>],
             logging_activated = True\<rparr>) = ''cd /tmp && ;''
   \<and> sultan_str ''alice''
     (clear \<lparr>commands = [Command ''ls'' [] []],
             context_stack = [\<lparr>cwd = Some ''/tmp'', sudo = False, hostname = None,
                               ssh_config = Some [], env = EnvNone, logging = True, src = None,
                               user = Some ''alice''\<rparr>],
             logging_activated = True\<rparr>) \<noteq> '';''"
  by (simp add: sultan_str_def clear_def current_context_def render_body_def render_loop_def
      strip_Nil cd_prefix_def source_prefix_def sudo_wrap_def ssh_wrap_def)

text \<open>
  C9, amended. The rendering is determined by the buffer, the active context and the
  invoking user, so rendering again without a change gives the same text; after
  \<open>clear\<close> the rendering is a lone semicolon inside the wrapping of the active
  context, and exactly a semicolon when the context sets no working directory, no
  source file, no sudo and no hostname.
\<close>

theorem render_stable_and_cleared:
  "(commands s = commands s' \<and> current_context s = current_context s' \<longrightarrow>
      sultan_str getuser s = sultan_str getuser s')
   \<and> sultan_str getuser (clear s) =
       ssh_wrap (current_context s) (sudo_wrap getuser (current_context s)
         (source_prefix (current_context s) (cd_prefix (current_context s) '';'')))
   \<and> (\<not> truthy (cwd (current_context s)) \<and> \<not> truthy (src (current_context s))
        \<and> \<not> sudo (current_context s) \<and> \<not> truthy (hostname (current_context s)) \<longrightarrow>
      sultan_str getuser (clear s) = '';'')"
proof -
  have c: "current_context (clear s) = current_context s"
    by (simp add: current_context_def clear_def)
  have b: "render_body (commands (clear s)) = '';''"
    by (simp add: clear_def render_body_def render_loop_def strip_Nil)
  have 1: "commands s = commands s' \<and> current_context s = current_context s' \<longrightarrow>
      sultan_str getuser s = sultan_str getuser s'"
    by (simp add: sultan_str_def)
  have 2: "sultan_str getuser (clear s) =
       ssh_wrap (current_context s) (sudo_wrap getuser (current_context s)
         (source_prefix (current_context s) (cd_prefix (current_context s) '';'')))"
    by (simp add: sultan_str_def Let_def c b)
  have 3: "\<not> truthy (cwd (current_context s)) \<and> \<not> truthy (src (current_context s))
        \<and> \<not> sudo (current_context s) \<and> \<not> truthy (hostname (current_context s)) \<longrightarrow>
      sultan_str getuser (clear s) = '';''"
    unfolding 2
    by (cases "cwd (current_context s)"; cases "src (current_context s)";
        cases "hostname (current_context s)")
       (simp_all add: cd_prefix_def source_prefix_def sudo_wrap_def ssh_wrap_def)
  from 1 2 3 show ?thesis by blast
qed

theorem render_stable_and_cleared_witness:
  "sultan_str ''alice''
     \<lparr>commands = [Command ''ls'' [] []], context_stack = [], logging_activated = False\<rparr>
   = sultan_str ''alice''
     \<lparr>commands = [Command ''ls'' [] []], context_stack = [], logging_activated = True\<rparr>
   \<and> sultan_str ''alice''
     (clear \<lparr>commands = [Command ''ls'' [] []], context_stack = [], logging_activated = False\<rparr>)
   = '';''"
proof -
  let ?a = "\<lparr>commands = [Command ''ls'' [] []], context_stack = [], logging_activated = False\<rparr>"
  let ?b = "\<lparr>commands = [Command ''ls'' [] []], context_stack = [], logging_activated = True\<rparr>"
  have h1: "commands ?a = commands ?b \<and> current_context ?a = current_context ?b"
    by (simp add: current_context_def)
  have h2: "\<not> truthy (cwd (current_context ?a)) \<and> \<not> truthy (src (current_context ?a))
        \<and> \<not> sudo (current_context ?a) \<and> \<not> truthy (hostname (current_context ?a))"
    by (simp add: current_context_def empty_context_def)
  from render_stable_and_cleared [of ?a ?b "''alice''"] h1 h2 show ?thesis by blast
qed

text \<open>
  C10. A command called with the keyword \<open>sudo\<close>, whatever its value, is appended
  with \<open>sudo\<close> and a space in front of its name and without that keyword among its
  options; the context plays no part. The call fails only as the \<open>where\<close>
  keyword makes it fail.
\<close>

theorem sudo_keyword:
  assumes "map_of kwargs ''sudo'' = Some v"
  shows "command_call path_exists command args kwargs s =
     (case map_of kwargs ''where'' of
        None \<Rightarrow>
          (None, s\<lparr>commands := commands s @
                    [Command (''sudo '' @ command) args (pop ''sudo'' kwargs)]\<rparr>)
      | Some w \<Rightarrow>
          if path_exists w \<and> path_exists (path_join w command)
          then (None, s\<lparr>commands := commands s @
                  [Command (''sudo '' @ path_join w (path_join w command)) args
                     (pop ''sudo'' (pop ''where'' kwargs))]\<rparr>)
          else (Some IOError, s))
   \<and> map_of (pop ''sudo'' kws) ''sudo'' = None
   \<and> ''sudo'' \<notin> fst ` set (pop ''sudo'' kws)
   \<and> token_str (Command (''sudo '' @ c) args kws) = ''sudo '' @ token_str (Command c args kws)"
proof -
  have 1: "map_of (pop ''where'' kwargs) ''sudo'' = Some v"
    using assms by (simp add: map_of_pop)
  have 2: "''sudo'' \<notin> fst ` set (pop ''sudo'' kws)"
    by (auto simp: pop_def)
  have 3: "token_str (Command (''sudo '' @ c) args kws) = ''sudo '' @ token_str (Command c args kws)"
    by (simp only: token_str.simps command_str_prefix)
  have 4: "command_call path_exists command args kwargs s =
     (case map_of kwargs ''where'' of
        None \<Rightarrow>
          (None, s\<lparr>commands := commands s @
                    [Command (''sudo '' @ command) args (pop ''sudo'' kwargs)]\<rparr>)
      | Some w \<Rightarrow>
          if path_exists w \<and> path_exists (path_join w command)
          then (None, s\<lparr>commands := commands s @
                  [Command (''sudo '' @ path_join w (path_join w command)) args
                     (pop ''sudo'' (pop ''where'' kwargs))]\<rparr>)
          else (Some IOError, s))"
    using assms 1
    by (simp add: command_call_def Let_def add_def map_of_pop split: option.split)
  have 5: "map_of (pop ''sudo'' kws) ''sudo'' = None"
    by (simp add: map_of_pop)
  from 2 3 4 5 show ?thesis by blast
qed

theorem sudo_keyword_witness:
  "command_call (exists_in []) ''yum'' [''install'', ''tree'']
     [(''sudo'', ''False''), (''y'', ''1'')]
     \<lparr>commands = [],
      context_stack = [\<lparr>cwd = None, sudo = True, hostname = None, ssh_config = Some [],
                        env = EnvNone, logging = True, src = None, user = Some ''root''\<rparr>],
      logging_activated = True\<rparr>
   = (None,
      \<lparr>commands = [Command ''sudo yum'' [''install'', ''tree''] [(''y'', ''1'')]],
       context_stack = [\<lparr>cwd = None, sudo = True, hostname = None, ssh_config = Some [],
                         env = EnvNone, logging = True, src = None, user = Some ''root''\<rparr>],
       logging_activated = True\<rparr>)
   \<and> token_str (Command ''sudo yum'' [''install'', ''tree''] [(''y'', ''1'')])
     = ''sudo yum -y=1 install tree''"
proof -
  have h: "map_of [(''sudo'', ''False''), (''y'', ''1'')] ''sudo'' = Some ''False''" by simp
  have t: "command_str ''yum'' [''install'', ''tree''] [(''y'', ''1'')] = ''yum -y=1 install tree''"
    by code_simp
  have p: "pop ''sudo'' [(''sudo'', ''False''), (''y'', ''1'')] = [(''y'', ''1'')]"
    by (simp add: pop_def)
  from sudo_keyword [OF h, of "exists_in []" "''yum''" "[''install'', ''tree'']"
      "\<lparr>commands = [],
      context_stack = [\<lparr>cwd = None, sudo = True, hostname = None, ssh_config = Some [],
                        env = EnvNone, logging = True, src = None, user = Some ''root''\<rparr>],
      logging_activated = True\<rparr>"
      "[(''y'', ''1'')]" "''yum''"]
  show ?thesis by (simp add: p t)
qed

end
